theory Spec2Isabelle
  imports Main "HOL-Library.AList" "HOL-Library.Sublist"
begin

section \<open>Text\<close>

text \<open>
  The script works on Python \<^verbatim>\<open>str\<close> values: sequences of Unicode code points. A text
  is a list of code points; \<open>py\<close> turns a literal of the source into one.
\<close>

type_synonym str = "nat list"

abbreviation py :: "string \<Rightarrow> str" where
  "py s \<equiv> map of_char s"

text \<open>
  \<^verbatim>\<open>\w\<close> of \<^verbatim>\<open>re\<close> on a \<^verbatim>\<open>str\<close> pattern: the ASCII letters and digits, the underscore, and
  beyond ASCII whatever the interpreter's Unicode database calls alphanumeric. That
  database is not part of the repository: it is the parameter \<open>W\<close> of everything below,
  consulted for code points from 128 on only.
\<close>

definition ascii_alnum :: "nat \<Rightarrow> bool" where
  "ascii_alnum c = ((48 \<le> c \<and> c \<le> 57) \<or> (65 \<le> c \<and> c \<le> 90) \<or> (97 \<le> c \<and> c \<le> 122))"

definition is_word :: "(nat \<Rightarrow> bool) \<Rightarrow> nat \<Rightarrow> bool" where
  "is_word W c = (if c < 128 then ascii_alnum c \<or> c = 95 else W c)"

text \<open>
  A database with no alphanumeric code point beyond ASCII, for the examples: on a text
  in ASCII any database gives the same result.
\<close>

definition ascii_only :: "nat \<Rightarrow> bool" where
  "ascii_only c = False"

text \<open>The code points \<^verbatim>\<open>str.isspace\<close> accepts: what \<^verbatim>\<open>strip()\<close> and \<^verbatim>\<open>split()\<close> remove.\<close>

definition is_space :: "nat \<Rightarrow> bool" where
  "is_space c = ((9 \<le> c \<and> c \<le> 13) \<or> (28 \<le> c \<and> c \<le> 32) \<or> c = 0x85 \<or> c = 0xA0 \<or>
     c = 0x1680 \<or> (0x2000 \<le> c \<and> c \<le> 0x200A) \<or> c = 0x2028 \<or> c = 0x2029 \<or>
     c = 0x202F \<or> c = 0x205F \<or> c = 0x3000)"

definition strip :: "str \<Rightarrow> str" where
  "strip s = rev (dropWhile is_space (rev (dropWhile is_space s)))"

definition rstrip_chr :: "nat \<Rightarrow> str \<Rightarrow> str" where
  "rstrip_chr x s = rev (dropWhile (\<lambda>c. c = x) (rev s))"

text \<open>\<^verbatim>\<open>s.split(sep)\<close> for a separator of one code point: empty pieces are kept.\<close>

fun split_chr :: "nat \<Rightarrow> str \<Rightarrow> str list" where
  "split_chr x [] = [[]]"
| "split_chr x (c # s) =
     (if c = x then [] # split_chr x s
      else (case split_chr x s of
              [] \<Rightarrow> [[c]]
            | w # ws \<Rightarrow> (c # w) # ws))"

text \<open>\<^verbatim>\<open>s.split()\<close>: the maximal runs of non-space code points.\<close>

function split_ws :: "str \<Rightarrow> str list" where
  "split_ws [] = []"
| "split_ws (c # s) =
     (if is_space c then split_ws s
      else (c # takeWhile (\<lambda>d. \<not> is_space d) s) # split_ws (dropWhile (\<lambda>d. \<not> is_space d) s))"
  by pat_completeness auto
termination
  by (relation "measure length") (auto simp: length_dropWhile_le less_Suc_eq_le)

text \<open>\<^verbatim>\<open>sub in s\<close>.\<close>

fun contains :: "str \<Rightarrow> str \<Rightarrow> bool" where
  "contains sub [] = (sub = [])"
| "contains sub (c # s) = (prefix sub (c # s) \<or> contains sub s)"

section \<open>Regular expressions\<close>

text \<open>
  The three patterns of the script are sequences of five kinds of pieces: a literal, an
  optional literal \<^verbatim>\<open>(?:lit)?\<close>, and the capturing groups \<^verbatim>\<open>(c+)\<close>, \<^verbatim>\<open>(c*)\<close> for a
  character class \<open>c\<close> and \<^verbatim>\<open>(.*?)\<close> under \<^verbatim>\<open>re.DOTALL\<close>.
\<close>

datatype item = Lit str | Opt str | Plus "nat \<Rightarrow> bool" | Star "nat \<Rightarrow> bool" | Lazy_any

text \<open>
  The backtracking matcher, anchored at the start of \<open>s\<close>: the groups captured so far are
  \<open>gs\<close>; the result is the groups of the first successful path and the text left after
  the match. A greedy piece takes as much as it can and gives back one code point at a
  time (\<open>grd\<close>); the lazy one takes as little as it can (\<open>lzy\<close>).
\<close>

function mt :: "item list \<Rightarrow> str \<Rightarrow> str list \<Rightarrow> (str list \<times> str) option"
  and grd :: "(nat \<Rightarrow> bool) \<Rightarrow> item list \<Rightarrow> str \<Rightarrow> str \<Rightarrow> str list \<Rightarrow> (str list \<times> str) option"
  and lzy :: "item list \<Rightarrow> str \<Rightarrow> str \<Rightarrow> str list \<Rightarrow> (str list \<times> str) option"
where
  "mt [] s gs = Some (gs, s)"
| "mt (i # r) s gs =
     (case i of
        Lit l \<Rightarrow> if prefix l s then mt r (drop (length l) s) gs else None
      | Opt l \<Rightarrow>
          (case (if prefix l s then mt r (drop (length l) s) gs else None) of
             Some m \<Rightarrow> Some m
           | None \<Rightarrow> mt r s gs)
      | Plus p \<Rightarrow>
          (case s of
             [] \<Rightarrow> None
           | c # s' \<Rightarrow> if p c then grd p r [c] s' gs else None)
      | Star p \<Rightarrow> grd p r [] s gs
      | Lazy_any \<Rightarrow> lzy r [] s gs)"
| "grd p r acc [] gs = mt r [] (gs @ [acc])"
| "grd p r acc (c # s) gs =
     (if p c then
        (case grd p r (acc @ [c]) s gs of
           Some m \<Rightarrow> Some m
         | None \<Rightarrow> mt r (c # s) (gs @ [acc]))
      else mt r (c # s) (gs @ [acc]))"
| "lzy r acc [] gs = mt r [] (gs @ [acc])"
| "lzy r acc (c # s) gs =
     (case mt r (c # s) (gs @ [acc]) of
        Some m \<Rightarrow> Some m
      | None \<Rightarrow> lzy r (acc @ [c]) s gs)"
  by pat_completeness auto
termination
  by (relation "measures
       [\<lambda>x. case x of
          Inl (pat, s, gs) \<Rightarrow> 2 * length pat
        | Inr (Inl (p, r, acc, s, gs)) \<Rightarrow> 2 * length r + 1
        | Inr (Inr (r, acc, s, gs)) \<Rightarrow> 2 * length r + 1,
        \<lambda>x. case x of
          Inl (pat, s, gs) \<Rightarrow> length s
        | Inr (Inl (p, r, acc, s, gs)) \<Rightarrow> length s
        | Inr (Inr (r, acc, s, gs)) \<Rightarrow> length s]") auto

text \<open>
  \<^verbatim>\<open>re.finditer\<close>: the matches from left to right, each searched from the end of the one
  before, as the list of their groups. None of the script's patterns matches the empty
  text (lemma \<open>mt_consumes\<close> below); were a match empty, the search would go on one code
  point further.
\<close>

function finditer :: "item list \<Rightarrow> str \<Rightarrow> str list list" where
  "finditer pat [] = (case mt pat [] [] of Some (gs, rest) \<Rightarrow> [gs] | None \<Rightarrow> [])"
| "finditer pat (c # s) =
     (case mt pat (c # s) [] of
        Some (gs, rest) \<Rightarrow> gs # finditer pat (if length rest \<le> length s then rest else s)
      | None \<Rightarrow> finditer pat s)"
  by pat_completeness auto
termination
  by (relation "measure (\<lambda>(pat, s). length s)") auto

text \<open>
  \<^verbatim>\<open>re.sub(pat, r'\1', s)\<close>: every match is replaced by its first group, the text between
  the matches is kept.
\<close>

function re_sub_group1 :: "item list \<Rightarrow> str \<Rightarrow> str" where
  "re_sub_group1 pat [] = (case mt pat [] [] of Some (g # gs, rest) \<Rightarrow> g | _ \<Rightarrow> [])"
| "re_sub_group1 pat (c # s) =
     (case mt pat (c # s) [] of
        Some (g # gs, rest) \<Rightarrow>
          (if length rest \<le> length s then g @ re_sub_group1 pat rest
           else g @ c # re_sub_group1 pat s)
      | _ \<Rightarrow> c # re_sub_group1 pat s)"
  by pat_completeness auto
termination
  by (relation "measure (\<lambda>(pat, s). length s)") auto



section \<open>The extractors\<close>

text \<open>\<^verbatim>\<open>r'CREATE TABLE "public"\."(\w+)" \((.*?)\);'\<close>, with \<^verbatim>\<open>re.DOTALL\<close>.\<close>

definition table_pattern :: "(nat \<Rightarrow> bool) \<Rightarrow> item list" where
  "table_pattern W =
     [Lit (py ''CREATE TABLE \"public\".\"''), Plus (is_word W), Lit (py ''\" (''), Lazy_any,
      Lit (py '');'')]"

text \<open>\<^verbatim>\<open>r'"([^"]*)"'\<close>.\<close>

definition quoted_pattern :: "item list" where
  "quoted_pattern = [Lit (py ''\"''), Star (\<lambda>c. c \<noteq> 34), Lit (py ''\"'')]"

text \<open>The body of the inner loop: the column fragments of one \<^verbatim>\<open>columns_text\<close>.\<close>

fun columns_of_lines :: "str list \<Rightarrow> str list" where
  "columns_of_lines [] = []"
| "columns_of_lines (line # lines) =
     (let line = rstrip_chr 44 (strip line) in
      if line \<noteq> [] \<and> \<not> prefix (py ''--'') line
      then strip (re_sub_group1 quoted_pattern line) # columns_of_lines lines
      else columns_of_lines lines)"

definition columns_of :: "str \<Rightarrow> str list" where
  "columns_of columns_text = columns_of_lines (split_chr 10 (strip columns_text))"

text \<open>
  A Python \<^verbatim>\<open>dict\<close> keeps its keys in insertion order and an assignment to a key already
  there changes the value in place: an association list under \<^const>\<open>AList.update\<close>.
\<close>

type_synonym tables = "(str \<times> str list) list"

definition parse_create_table :: "(nat \<Rightarrow> bool) \<Rightarrow> str \<Rightarrow> tables" where
  "parse_create_table W schema_content =
     foldl (\<lambda>tables m. AList.update (m ! 0) (columns_of (m ! 1)) tables) []
       (finditer (table_pattern W) schema_content)"

text \<open>
  \<^verbatim>\<open>r'ALTER TABLE (?:ONLY )?public\.(\w+) ADD CONSTRAINT (\w+) FOREIGN KEY \(([^)]+)\)
  REFERENCES public\.(\w+)\(([^)]+)\)'\<close> (one line in the source).
\<close>

definition fk_pattern :: "(nat \<Rightarrow> bool) \<Rightarrow> item list" where
  "fk_pattern W =
     [Lit (py ''ALTER TABLE ''), Opt (py ''ONLY ''), Lit (py ''public.''), Plus (is_word W),
      Lit (py '' ADD CONSTRAINT ''), Plus (is_word W), Lit (py '' FOREIGN KEY (''),
      Plus (\<lambda>c. c \<noteq> 41), Lit (py '') REFERENCES public.''), Plus (is_word W), Lit (py ''(''),
      Plus (\<lambda>c. c \<noteq> 41), Lit (py '')'')]"

record foreign_key =
  source_table :: str
  source_column :: str
  target_table :: str
  target_column :: str
  constraint_name :: str

definition fk_of_match :: "str list \<Rightarrow> foreign_key" where
  "fk_of_match m =
     \<lparr>source_table = m ! 0, source_column = m ! 2, target_table = m ! 3,
      target_column = m ! 4, constraint_name = m ! 1\<rparr>"

definition parse_foreign_keys :: "(nat \<Rightarrow> bool) \<Rightarrow> str \<Rightarrow> foreign_key list" where
  "parse_foreign_keys W schema_content = map fk_of_match (finditer (fk_pattern W) schema_content)"

section \<open>The report\<close>

datatype error =
  IndexError | KeyError | IsADirectoryError | FileExistsError | UnicodeDecodeError

text \<open>
  What a stretch of the script does on the console: the arguments of its \<^verbatim>\<open>print\<close> calls
  in order, and the exception that ended it, if one did.
\<close>

type_synonym out = "str list \<times> error option"

definition say :: "str \<Rightarrow> out" where
  "say line = ([line], None)"

definition raise :: "error \<Rightarrow> out" where
  "raise e = ([], Some e)"

fun seq :: "out \<Rightarrow> out \<Rightarrow> out" where
  "seq (ls, Some e) _ = (ls, Some e)"
| "seq (ls, None) (ls', e) = (ls @ ls', e)"

fun for_each :: "('a \<Rightarrow> out) \<Rightarrow> 'a list \<Rightarrow> out" where
  "for_each body [] = ([], None)"
| "for_each body (x # xs) = seq (body x) (for_each body xs)"

definition seqs :: "out list \<Rightarrow> out" where
  "seqs os = foldr seq os ([], None)"

text \<open>\<^verbatim>\<open>tables[table]\<close>.\<close>

definition getitem :: "tables \<Rightarrow> str \<Rightarrow> error + str list" where
  "getitem tables table = (case map_of tables table of None \<Rightarrow> Inl KeyError | Some cols \<Rightarrow> Inr cols)"

definition core_tables :: "str list" where
  "core_tables =
     [py ''communities'', py ''users'', py ''stories'', py ''places'', py ''speakers'',
      py ''themes'', py ''curriculums'']"

text \<open>
  \<^verbatim>\<open>str.upper\<close> and \<^verbatim>\<open>str.capitalize\<close> are applied to the seven names of \<open>core_tables\<close>
  only, where they are the ASCII ones.
\<close>

definition ascii_upper :: "nat \<Rightarrow> nat" where
  "ascii_upper c = (if 97 \<le> c \<and> c \<le> 122 then c - 32 else c)"

definition ascii_lower :: "nat \<Rightarrow> nat" where
  "ascii_lower c = (if 65 \<le> c \<and> c \<le> 90 then c + 32 else c)"

definition upper :: "str \<Rightarrow> str" where
  "upper s = map ascii_upper s"

definition capitalize :: "str \<Rightarrow> str" where
  "capitalize s = (case s of [] \<Rightarrow> [] | c # r \<Rightarrow> ascii_upper c # map ascii_lower r)"

text \<open>The decimal digits of a length, as an f-string prints it.\<close>

function show_nat :: "nat \<Rightarrow> str" where
  "show_nat n = (if n < 10 then [48 + n] else show_nat (n div 10) @ [48 + n mod 10])"
  by pat_completeness auto
termination
  by (relation "measure id") auto

definition rule50 :: str where
  "rule50 = replicate 50 61"

text \<open>Lines 76 to 84: the core tables that were found, ten columns of each at most.\<close>

definition core_section :: "tables \<Rightarrow> out" where
  "core_section tables =
     seqs [say ([0x1F4CA] @ py '' CORE DOMAIN TABLES:''), say rule50,
       for_each (\<lambda>table.
         if map_of tables table \<noteq> None then
           (case getitem tables table of
              Inl e \<Rightarrow> raise e
            | Inr cols \<Rightarrow>
                seqs [say ([10, 0x1F3F7, 0xFE0F] @ py ''  '' @ upper table @ py '':''),
                  for_each (\<lambda>col. say (py ''   '' @ [0x2022] @ py '' '' @ col)) (take 10 cols),
                  if length cols > 10
                  then say (py ''   ... and '' @ show_nat (length cols - 10) @ py '' more columns'')
                  else ([], None)])
         else ([], None)) core_tables]"

text \<open>Line 87.\<close>

definition junction_tables :: "tables \<Rightarrow> str list" where
  "junction_tables tables =
     filter (\<lambda>t. contains (py ''_'') t \<and> list_ex (\<lambda>core. contains core t) core_tables)
       (map fst tables)"

definition junction_section :: "tables \<Rightarrow> out" where
  "junction_section tables =
     seqs [say ([10, 0x1F517] @ py '' RELATIONSHIP TABLES:''), say rule50,
       for_each (\<lambda>table.
         seq (say ([0x2022] @ py '' '' @ table))
           (case getitem tables table of
              Inl e \<Rightarrow> raise e
            | Inr cols \<Rightarrow> for_each (\<lambda>col. say (py ''  - '' @ col)) cols))
         (junction_tables tables)]"

text \<open>Line 97.\<close>

definition active_storage_tables :: "tables \<Rightarrow> str list" where
  "active_storage_tables tables = filter (\<lambda>t. prefix (py ''active_storage'') t) (map fst tables)"

definition media_section :: "tables \<Rightarrow> out" where
  "media_section tables =
     seqs [say ([10, 0x1F4F1] @ py '' MEDIA TABLES (ActiveStorage):''), say rule50,
       for_each (\<lambda>table. say ([0x2022] @ py '' '' @ table)) (active_storage_tables tables)]"

definition fk_line :: "foreign_key \<Rightarrow> str" where
  "fk_line fk =
     source_table fk @ py ''.'' @ source_column fk @ py '' '' @ [0x2192] @ py '' '' @
     target_table fk @ py ''.'' @ target_column fk"

definition fk_section :: "foreign_key list \<Rightarrow> out" where
  "fk_section foreign_keys =
     seqs [say ([10, 0x1F517] @ py '' FOREIGN KEY RELATIONSHIPS:''), say rule50,
       for_each (\<lambda>fk. say ([0x2022] @ py '' '' @ fk_line fk)) foreign_keys]"

text \<open>Lines 125 to 134: the type suggested for a column fragment.\<close>

definition ts_type :: "str \<Rightarrow> str" where
  "ts_type col =
     (if contains (py ''bigint'') col \<or> contains (py ''integer'') col then py ''number''
      else if contains (py ''character varying'') col \<or> contains (py ''text'') col then py ''string''
      else if contains (py ''timestamp'') col then py ''Date''
      else if contains (py ''boolean'') col then py ''boolean''
      else py ''unknown'')"

text \<open>
  Lines 136 to 138: the field printed for a column fragment. \<^verbatim>\<open>col.split()[0]\<close> raises
  when the fragment has no token.
\<close>

definition ts_field :: "str \<Rightarrow> out" where
  "ts_field col =
     (let ts = ts_type col in
      case split_ws col of
        [] \<Rightarrow> raise IndexError
      | col_name # _ \<Rightarrow>
          (let nullable = (if \<not> contains (py ''NOT NULL'') col then py ''?'' else [])
           in say (py ''  '' @ col_name @ nullable @ py '': '' @ ts @ py '';'')))"

definition ts_section :: "tables \<Rightarrow> out" where
  "ts_section tables =
     seqs [say ([10, 0x1F3AF] @ py '' TYPESCRIPT MIGRATION INSIGHTS:''), say rule50,
       say ([10, 0x1F4CB] @ py '' Recommended TypeScript Types:''),
       for_each (\<lambda>table.
         if map_of tables table \<noteq> None then
           seqs [say ([10] @ py ''// '' @ capitalize table @ py '' entity''),
             say (py ''interface '' @ capitalize table @ py '' {''),
             (case getitem tables table of
                Inl e \<Rightarrow> raise e
              | Inr cols \<Rightarrow> for_each ts_field (take 5 cols)),
             say (py ''  // ... other fields''),
             say (py ''}'')]
         else ([], None)) core_tables]"

definition priority_section :: out where
  "priority_section =
     seqs [say ([10, 0x1F5FA, 0xFE0F] @ py '' MIGRATION PRIORITY:''), say rule50,
       say (py ''1. Core entities: Community, User, Story, Place, Speaker''),
       say (py ''2. Relationship tables: story_places, story_speakers''),
       say (py ''3. Media system: ActiveStorage '' @ [0x2192] @ py '' new media handling''),
       say (py ''4. Theme & Curriculum systems''),
       say (py ''5. Feature flags (flipper_*)'')]"

text \<open>Lines 156 to 168: what is written to the summary file.\<close>

definition summary :: "str \<Rightarrow> tables \<Rightarrow> foreign_key list \<Rightarrow> str" where
  "summary date tables foreign_keys =
     py ''TERRASTORIES SCHEMA ANALYSIS'' @ [10] @
     py ''Generated: '' @ strip date @ [10, 10] @
     py ''CORE TABLES:'' @ [10] @
     concat (map (\<lambda>table.
       case map_of tables table of
         None \<Rightarrow> []
       | Some cols \<Rightarrow>
           [10] @ table @ py '':'' @ [10] @ concat (map (\<lambda>col. py ''  '' @ col @ [10]) cols))
       core_tables) @
     [10] @ py ''FOREIGN KEYS:'' @ [10] @
     concat (map (\<lambda>fk. fk_line fk @ [10]) foreign_keys)"

text \<open>
  What a regular file holds, as the text layer of \<^verbatim>\<open>open\<close> sees it: the code points that
  the default codec decodes from its bytes, line ends as they are on disk, or bytes that
  the codec rejects.
\<close>

datatype file_content = Decoded str | Undecodable

text \<open>
  \<^verbatim>\<open>f.read()\<close> of a file opened with \<^verbatim>\<open>open(path, 'r')\<close>: every carriage return with its line
  feed, and every carriage return alone, comes out as one line feed.
\<close>

fun universal_newlines :: "str \<Rightarrow> str" where
  "universal_newlines [] = []"
| "universal_newlines [c] = [if c = 13 then 10 else c]"
| "universal_newlines (c # d # s) =
     (if c = 13 \<and> d = 10 then 10 # universal_newlines s
      else if c = 13 then 10 # universal_newlines (d # s)
      else c # universal_newlines (d # s))"

text \<open>
  \<^verbatim>\<open>f.write(text)\<close> of a file opened with \<^verbatim>\<open>open(path, 'w')\<close>: every line feed goes to disk as
  the line separator of the platform.
\<close>

definition written :: "str \<Rightarrow> str \<Rightarrow> str" where
  "written sep text = concat (map (\<lambda>c. if c = 10 then sep else [c]) text)"

text \<open>
  The world the script runs in: the regular files and the directories under the working
  directory, the console, what the \<^verbatim>\<open>date\<close> command prints, and the line separator of the
  platform (\<^verbatim>\<open>os.linesep\<close>). Files that cannot be read or written for want of permission, and
  text that cannot be encoded, are not modelled.
\<close>

record world =
  files :: "string \<rightharpoonup> file_content"
  dirs :: "string set"
  stdout :: "str list"
  date_output :: str
  linesep :: str

definition schema_file :: string where
  "schema_file = ''dump-analysis/schema.sql''"

definition output_dir :: string where
  "output_dir = ''migration-analysis''"

definition output_file :: string where
  "output_file = ''migration-analysis/schema_analysis.txt''"

definition not_found_message :: str where
  "not_found_message = [0x274C] @ py '' Schema file not found. Please run ./analyze-dump.sh first''"

definition path_exists :: "world \<Rightarrow> string \<Rightarrow> bool" where
  "path_exists w p = (p \<in> dom (files w) \<or> p \<in> dirs w)"

text \<open>Lines 68 to 149: everything printed between reading the schema and saving.\<close>

definition console_report :: "(nat \<Rightarrow> bool) \<Rightarrow> str \<Rightarrow> out" where
  "console_report W schema_content =
     (let tables = parse_create_table W schema_content;
          foreign_keys = parse_foreign_keys W schema_content
      in seqs [say ([0x1F50D] @ py '' Analyzing Terrastories Database Schema for TypeScript Migration'' @ [10]),
           core_section tables, junction_section tables, media_section tables,
           fk_section foreign_keys, ts_section tables, priority_section])"

text \<open>
  \<^verbatim>\<open>analyze_terrastories_schema\<close>: the world after the run and the exception that ended
  it, if one did.
\<close>

definition analyze_terrastories_schema :: "(nat \<Rightarrow> bool) \<Rightarrow> world \<Rightarrow> world \<times> error option" where
  "analyze_terrastories_schema W w =
     (if \<not> path_exists w schema_file
      then (w\<lparr>stdout := stdout w @ [not_found_message]\<rparr>, None)
      else
        (case files w schema_file of
           None \<Rightarrow> (w, Some IsADirectoryError)
         | Some Undecodable \<Rightarrow> (w, Some UnicodeDecodeError)
         | Some (Decoded on_disk) \<Rightarrow>
             (let schema_content = universal_newlines on_disk;
                  (lines, exc) = console_report W schema_content;
                  w1 = w\<lparr>stdout := stdout w @ lines\<rparr>
              in case exc of
                   Some e \<Rightarrow> (w1, Some e)
                 | None \<Rightarrow>
                     if output_dir \<in> dom (files w1) then (w1, Some FileExistsError)
                     else
                       (let w2 = w1\<lparr>dirs := insert output_dir (dirs w1)\<rparr> in
                        if output_file \<in> dirs w2 then (w2, Some IsADirectoryError)
                        else
                          (w2\<lparr>files := (files w2)(output_file \<mapsto>
                                 Decoded (written (linesep w2)
                                   (summary (date_output w2) (parse_create_table W schema_content)
                                      (parse_foreign_keys W schema_content)))),
                               stdout := stdout w2 @
                                 [[10, 0x2705] @ py '' Analysis complete! Detailed results saved to migration-analysis/'']\<rparr>,
                           None)))))"

section \<open>Properties\<close>

subsection \<open>The extractors on the examples of the specification\<close>

text \<open>
  C1, as the specification has it, fails: for the text
  \<^verbatim>\<open>CREATE TABLE "public"."users" ("id" bigint NOT NULL, "name" character varying);\<close>
  the value of \<^verbatim>\<open>users\<close> is not the list of the two fragments \<^verbatim>\<open>id bigint NOT NULL\<close> and
  \<^verbatim>\<open>name character varying\<close>. The column text is split at newlines, and this text has
  none.
\<close>

theorem C1_two_fragments_counterexample:
  "map_of (parse_create_table ascii_only
      (py ''CREATE TABLE \"public\".\"users\" (\"id\" bigint NOT NULL, \"name\" character varying);''))
     (py ''users'') \<noteq>
   Some [py ''id bigint NOT NULL'', py ''name character varying'']"
  by (simp add: parse_create_table_def table_pattern_def columns_of_def strip_def rstrip_chr_def
       quoted_pattern_def is_word_def ascii_alnum_def is_space_def)

text \<open>
  C1, amended: for that text \<^verbatim>\<open>parse_create_table\<close> returns a mapping whose only key is
  \<^verbatim>\<open>users\<close>, bound to the single fragment \<^verbatim>\<open>id bigint NOT NULL, name character varying\<close>
  (the column text with its double quotes removed); with a newline after the comma
  between the two column definitions, it is bound to the two fragments
  \<^verbatim>\<open>id bigint NOT NULL\<close> and \<^verbatim>\<open>name character varying\<close>.
\<close>

theorem C1_create_table_example:
  "parse_create_table W
     (py ''CREATE TABLE \"public\".\"users\" (\"id\" bigint NOT NULL, \"name\" character varying);'') =
   [(py ''users'', [py ''id bigint NOT NULL, name character varying''])] \<and>
   parse_create_table W
     (py ''CREATE TABLE \"public\".\"users\" (\"id\" bigint NOT NULL,'' @ [10] @
      py ''\"name\" character varying);'') =
   [(py ''users'', [py ''id bigint NOT NULL'', py ''name character varying''])]"
  by (simp add: parse_create_table_def table_pattern_def columns_of_def strip_def rstrip_chr_def
       quoted_pattern_def is_word_def ascii_alnum_def is_space_def)

text \<open>
  C2: for the text \<^verbatim>\<open>ALTER TABLE ONLY public.stories ADD CONSTRAINT fk_x FOREIGN KEY
  (community_id) REFERENCES public.communities(id)\<close>, \<^verbatim>\<open>parse_foreign_keys\<close> returns a list of
  exactly one record, with source table \<^verbatim>\<open>stories\<close>, source column \<^verbatim>\<open>community_id\<close>,
  target table \<^verbatim>\<open>communities\<close>, target column \<^verbatim>\<open>id\<close> and constraint name \<^verbatim>\<open>fk_x\<close>.
\<close>

theorem C2_foreign_key_example:
  "parse_foreign_keys W
     (py ''ALTER TABLE ONLY public.stories ADD CONSTRAINT fk_x FOREIGN KEY (community_id) REFERENCES public.communities(id)'') =
   [\<lparr>source_table = py ''stories'', source_column = py ''community_id'',
     target_table = py ''communities'', target_column = py ''id'',
     constraint_name = py ''fk_x''\<rparr>]"
  by (simp add: parse_foreign_keys_def fk_pattern_def fk_of_match_def is_word_def ascii_alnum_def)

subsection \<open>The report\<close>

text \<open>\<^verbatim>\<open>sub in s\<close> holds exactly when \<open>sub\<close> occurs in \<open>s\<close>.\<close>

lemma contains_iff: "contains sub s \<longleftrightarrow> (\<exists>u v. s = u @ sub @ v)"
proof (induction s)
  case Nil
  then show ?case by auto
next
  case (Cons c s)
  show ?case
  proof
    assume "contains sub (c # s)"
    then consider "prefix sub (c # s)" | "contains sub s" by auto
    then show "\<exists>u v. c # s = u @ sub @ v"
    proof cases
      case 1
      then obtain v where "c # s = sub @ v" by (auto simp: prefix_def)
      then have "c # s = [] @ sub @ v" by simp
      then show ?thesis by blast
    next
      case 2
      with Cons obtain u v where "s = u @ sub @ v" by blast
      then have "c # s = (c # u) @ sub @ v" by simp
      then show ?thesis by blast
    qed
  next
    assume "\<exists>u v. c # s = u @ sub @ v"
    then obtain u v where uv: "c # s = u @ sub @ v" by blast
    show "contains sub (c # s)"
    proof (cases u)
      case Nil
      with uv have "prefix sub (c # s)" by (simp add: prefix_def)
      then show ?thesis by simp
    next
      case (Cons d u')
      with uv have "s = u' @ sub @ v" by simp
      with Cons.IH have "contains sub s" by blast
      then show ?thesis by simp
    qed
  qed
qed

text \<open>
  C3: when neither a file nor a directory is at \<^verbatim>\<open>dump-analysis/schema.sql\<close>, the run ends
  without an exception after printing the not-found message and nothing else, and it
  leaves the files and the directories as they were: \<^verbatim>\<open>migration-analysis\<close> is not created
  and the summary is not written.
\<close>

theorem C3_missing_input:
  assumes "\<not> path_exists w schema_file"
  shows "snd (analyze_terrastories_schema W w) = None \<and>
         stdout (fst (analyze_terrastories_schema W w)) = stdout w @ [not_found_message] \<and>
         files (fst (analyze_terrastories_schema W w)) = files w \<and>
         dirs (fst (analyze_terrastories_schema W w)) = dirs w"
  using assms by (simp add: analyze_terrastories_schema_def)

theorem C3_missing_input_witness:
  "snd (analyze_terrastories_schema ascii_only \<lparr>files = Map.empty, dirs = {}, stdout = [], date_output = [], linesep = [10]\<rparr>) = None \<and>
   stdout (fst (analyze_terrastories_schema ascii_only \<lparr>files = Map.empty, dirs = {}, stdout = [], date_output = [], linesep = [10]\<rparr>)) = [not_found_message] \<and>
   output_dir \<notin> dirs (fst (analyze_terrastories_schema ascii_only \<lparr>files = Map.empty, dirs = {}, stdout = [], date_output = [], linesep = [10]\<rparr>)) \<and>
   files (fst (analyze_terrastories_schema ascii_only \<lparr>files = Map.empty, dirs = {}, stdout = [], date_output = [], linesep = [10]\<rparr>)) output_file = None"
  using C3_missing_input [of "\<lparr>files = Map.empty, dirs = {}, stdout = [], date_output = [], linesep = [10]\<rparr>" ascii_only]
  by (simp add: path_exists_def)

text \<open>
  C4: a column fragment in which \<^verbatim>\<open>bigint\<close> occurs is given the type \<^verbatim>\<open>number\<close>; one in which
  \<^verbatim>\<open>boolean\<close> occurs and none of \<^verbatim>\<open>bigint\<close>, \<^verbatim>\<open>integer\<close>, \<^verbatim>\<open>character varying\<close>, \<^verbatim>\<open>text\<close>,
  \<^verbatim>\<open>timestamp\<close> is given \<^verbatim>\<open>boolean\<close>; one in which none of the six tokens occurs is
  given \<^verbatim>\<open>unknown\<close>.
\<close>

theorem C4_type_mapping:
  "((\<exists>u v. col = u @ py ''bigint'' @ v) \<longrightarrow> ts_type col = py ''number'') \<and>
   ((\<exists>u v. col = u @ py ''boolean'' @ v) \<and>
    (\<forall>tok \<in> {py ''bigint'', py ''integer'', py ''character varying'', py ''text'', py ''timestamp''}.
       \<nexists>u v. col = u @ tok @ v) \<longrightarrow> ts_type col = py ''boolean'') \<and>
   ((\<forall>tok \<in> {py ''bigint'', py ''integer'', py ''character varying'', py ''text'', py ''timestamp'',
                py ''boolean''}.
       \<nexists>u v. col = u @ tok @ v) \<longrightarrow> ts_type col = py ''unknown'')"
  unfolding contains_iff [symmetric] ts_type_def by simp

theorem C4_type_mapping_witness:
  "ts_type (py ''id bigint NOT NULL'') = py ''number'' \<and>
   ts_type (py ''archived boolean DEFAULT false'') = py ''boolean'' \<and>
   ts_type (py ''photo bytea'') = py ''unknown''"
proof (intro conjI)
  have a: "\<exists>u v. py ''id bigint NOT NULL'' = u @ py ''bigint'' @ v"
    unfolding contains_iff [symmetric] by simp
  show "ts_type (py ''id bigint NOT NULL'') = py ''number''"
    by (rule C4_type_mapping [of "py ''id bigint NOT NULL''", THEN conjunct1, THEN mp, OF a])
next
  have b: "(\<exists>u v. py ''archived boolean DEFAULT false'' = u @ py ''boolean'' @ v) \<and>
    (\<forall>tok \<in> {py ''bigint'', py ''integer'', py ''character varying'', py ''text'', py ''timestamp''}.
       \<nexists>u v. py ''archived boolean DEFAULT false'' = u @ tok @ v)"
    unfolding contains_iff [symmetric] by simp
  show "ts_type (py ''archived boolean DEFAULT false'') = py ''boolean''"
    by (rule C4_type_mapping [of "py ''archived boolean DEFAULT false''", THEN conjunct2,
          THEN conjunct1, THEN mp, OF b])
next
  have c: "\<forall>tok \<in> {py ''bigint'', py ''integer'', py ''character varying'', py ''text'', py ''timestamp'',
                py ''boolean''}.
       \<nexists>u v. py ''photo bytea'' = u @ tok @ v"
    unfolding contains_iff [symmetric] by simp
  show "ts_type (py ''photo bytea'') = py ''unknown''"
    by (rule C4_type_mapping [of "py ''photo bytea''", THEN conjunct2, THEN conjunct2,
          THEN mp, OF c])
qed

text \<open>
  C5: among the parsed tables, one named \<^verbatim>\<open>story_speakers\<close> is in the junction tables
  and one named \<^verbatim>\<open>active_storage_blobs\<close> is in the media tables.
\<close>

theorem C5_classification:
  "(py ''story_speakers'' \<in> fst ` set tables \<longrightarrow>
      py ''story_speakers'' \<in> set (junction_tables tables)) \<and>
   (py ''active_storage_blobs'' \<in> fst ` set tables \<longrightarrow>
      py ''active_storage_blobs'' \<in> set (active_storage_tables tables))"
  by (simp add: junction_tables_def active_storage_tables_def core_tables_def)

theorem C5_classification_witness:
  "py ''story_speakers'' \<in> set (junction_tables
      [(py ''story_speakers'', [py ''story_id bigint'']), (py ''active_storage_blobs'', [])]) \<and>
   py ''active_storage_blobs'' \<in> set (active_storage_tables
      [(py ''story_speakers'', [py ''story_id bigint'']), (py ''active_storage_blobs'', [])])"
  using C5_classification [of "[(py ''story_speakers'', [py ''story_id bigint'']), (py ''active_storage_blobs'', [])]"]
  by simp

subsection \<open>The fields of the TypeScript preview\<close>

text \<open>
  The first token of a text: after leading white space, the code points up to the next
  white space or the end.
\<close>

lemma takeWhile_token:
  assumes "\<forall>c\<in>set name. \<not> is_space c" "rest = [] \<or> is_space (hd rest)"
  shows "takeWhile (\<lambda>d. \<not> is_space d) (name @ rest) = name"
    and "dropWhile (\<lambda>d. \<not> is_space d) (name @ rest) = rest"
proof -
  have t: "takeWhile (\<lambda>d. \<not> is_space d) rest = []"
    using assms(2) by (cases rest) auto
  have d: "dropWhile (\<lambda>d. \<not> is_space d) rest = rest"
    using assms(2) by (cases rest) auto
  show "takeWhile (\<lambda>d. \<not> is_space d) (name @ rest) = name"
    using assms(1) t by simp
  show "dropWhile (\<lambda>d. \<not> is_space d) (name @ rest) = rest"
    using assms(1) d by simp
qed

lemma split_ws_first:
  assumes "\<forall>c\<in>set ws. is_space c" "name \<noteq> []" "\<forall>c\<in>set name. \<not> is_space c"
    "rest = [] \<or> is_space (hd rest)"
  shows "split_ws (ws @ name @ rest) = name # split_ws rest"
  using assms(1)
proof (induction ws)
  case Nil
  from assms(2) obtain c n where name: "name = c # n" by (cases name) auto
  with assms(3) have c: "\<not> is_space c" and n: "\<forall>c\<in>set n. \<not> is_space c" by auto
  show ?case
    using c takeWhile_token [OF n assms(4)] by (simp add: name)
next
  case (Cons w ws)
  then show ?case by simp
qed

text \<open>A fragment without a token makes \<^verbatim>\<open>col.split()[0]\<close> raise: no field is printed for it.\<close>

lemma split_ws_blank: "\<forall>c\<in>set col. is_space c \<Longrightarrow> split_ws col = []"
  by (induction col) auto

lemma ts_field_blank: "\<forall>c\<in>set col. is_space c \<Longrightarrow> ts_field col = raise IndexError"
  by (simp add: ts_field_def split_ws_blank)

text \<open>
  C10: the field printed for a column fragment starts with the first white-space
  separated token of the fragment as its name, and the name is followed by \<^verbatim>\<open>?\<close> exactly
  when \<^verbatim>\<open>NOT NULL\<close> does not occur in the fragment; then come the colon, the suggested type
  and the semicolon.
\<close>

theorem C10_ts_field:
  assumes "col = ws @ name @ rest" "\<forall>c\<in>set ws. is_space c" "name \<noteq> []"
    "\<forall>c\<in>set name. \<not> is_space c" "rest = [] \<or> is_space (hd rest)"
  shows "ts_field col =
    say (py ''  '' @ name @ (if (\<exists>u v. col = u @ py ''NOT NULL'' @ v) then [] else py ''?'') @
         py '': '' @ ts_type col @ py '';'')"
proof -
  have "split_ws col = name # split_ws rest"
    unfolding assms(1) by (rule split_ws_first [OF assms(2-5)])
  then show ?thesis
    unfolding contains_iff [symmetric] by (simp add: ts_field_def)
qed

theorem C10_ts_field_witness:
  "ts_field (py ''id bigint NOT NULL'') = say (py ''  id: number;'') \<and>
   ts_field (py '' name character varying'') = say (py ''  name?: string;'')"
proof (intro conjI)
  have n: "(\<exists>u v. py ''id bigint NOT NULL'' = u @ py ''NOT NULL'' @ v) = True"
    unfolding contains_iff [symmetric] by simp
  have t: "ts_type (py ''id bigint NOT NULL'') = py ''number''"
    by (simp add: ts_type_def)
  have "ts_field (py ''id bigint NOT NULL'') =
    say (py ''  '' @ py ''id'' @ (if (\<exists>u v. py ''id bigint NOT NULL'' = u @ py ''NOT NULL'' @ v) then [] else py ''?'') @
         py '': '' @ ts_type (py ''id bigint NOT NULL'') @ py '';'')"
    by (rule C10_ts_field [of _ "[]" _ "py '' bigint NOT NULL''"]) (simp_all add: is_space_def)
  then show "ts_field (py ''id bigint NOT NULL'') = say (py ''  id: number;'')"
    unfolding n t by simp
next
  have n: "(\<exists>u v. py '' name character varying'' = u @ py ''NOT NULL'' @ v) = False"
    unfolding contains_iff [symmetric] by simp
  have t: "ts_type (py '' name character varying'') = py ''string''"
    by (simp add: ts_type_def)
  have "ts_field (py '' name character varying'') =
    say (py ''  '' @ py ''name'' @ (if (\<exists>u v. py '' name character varying'' = u @ py ''NOT NULL'' @ v) then [] else py ''?'') @
         py '': '' @ ts_type (py '' name character varying'') @ py '';'')"
    by (rule C10_ts_field [of _ "py '' ''" _ "py '' character varying''"]) (simp_all add: is_space_def)
  then show "ts_field (py '' name character varying'') = say (py ''  name?: string;'')"
    unfolding n t by simp
qed

subsection \<open>Tables defined more than once\<close>

text \<open>
  The loop of \<^verbatim>\<open>parse_create_table\<close> assigns to the dictionary once for every match, in
  the order of the matches: a key is bound to what the last match with that key assigned,
  and no key occurs twice.
\<close>

lemma map_of_foldl_update:
  "map_of (foldl (\<lambda>t m. AList.update (k m) (v m) t) init ms) n =
     (if \<exists>m\<in>set ms. k m = n then Some (v (last (filter (\<lambda>m. k m = n) ms)))
      else map_of init n)"
proof (induction ms rule: rev_induct)
  case Nil
  then show ?case by simp
next
  case (snoc m ms)
  then show ?case by (auto simp: AList.update_conv')
qed

lemma distinct_foldl_update:
  "distinct (map fst init) \<Longrightarrow>
   distinct (map fst (foldl (\<lambda>t m. AList.update (k m) (v m) t) init ms))"
  by (induction ms rule: rev_induct) (simp_all add: AList.distinct_update)


lemma bound_once:
  "distinct (map fst al) \<Longrightarrow> map_of al n = Some x \<Longrightarrow>
   length (filter (\<lambda>kv. fst kv = n) al) = 1"
proof (induction al)
  case Nil
  then show ?case by simp
next
  case (Cons a al)
  show ?case
  proof (cases "fst a = n")
    case True
    from Cons.prems(1) have notin: "fst a \<notin> fst ` set al" by simp
    have "\<forall>kv\<in>set al. fst kv \<noteq> n"
    proof
      fix kv assume "kv \<in> set al"
      then have "fst kv \<in> fst ` set al" by (rule imageI)
      with notin True show "fst kv \<noteq> n" by metis
    qed
    then have "filter (\<lambda>kv. fst kv = n) al = []"
      by (simp add: filter_empty_conv)
    with True show ?thesis by simp
  next
    case False
    with Cons show ?thesis by (cases a) auto
  qed
qed

text \<open>
  C9: when the text has matches of the \<^verbatim>\<open>CREATE TABLE\<close> pattern, the name of each of them is
  bound exactly once in the mapping \<^verbatim>\<open>parse_create_table\<close> returns, to the column fragments
  of the last match with that name: an earlier definition of the same table is
  overwritten.
\<close>

theorem C9_last_definition_wins:
  assumes "m \<in> set (finditer (table_pattern W) s)"
  shows "length (filter (\<lambda>kv. fst kv = m ! 0) (parse_create_table W s)) = 1 \<and>
         map_of (parse_create_table W s) (m ! 0) =
           Some (columns_of
             (last (filter (\<lambda>m'. m' ! 0 = m ! 0) (finditer (table_pattern W) s)) ! 1))"
proof -
  have d: "distinct (map fst (parse_create_table W s))"
    unfolding parse_create_table_def by (rule distinct_foldl_update) simp
  from assms have "\<exists>m'\<in>set (finditer (table_pattern W) s). m' ! 0 = m ! 0" by blast
  then have v: "map_of (parse_create_table W s) (m ! 0) =
      Some (columns_of
        (last (filter (\<lambda>m'. m' ! 0 = m ! 0) (finditer (table_pattern W) s)) ! 1))"
    unfolding parse_create_table_def
    by (simp only: map_of_foldl_update [where k = "\<lambda>m. m ! 0" and v = "\<lambda>m. columns_of (m ! 1)"] if_True)
  from bound_once [OF d v] v show ?thesis by simp
qed

theorem C9_last_definition_wins_witness:
  "length (filter (\<lambda>kv. fst kv = py ''users'')
     (parse_create_table ascii_only
        (py ''CREATE TABLE \"public\".\"users\" (\"id\" bigint);CREATE TABLE \"public\".\"users\" (\"name\" text);''))) = 1 \<and>
   map_of (parse_create_table ascii_only
        (py ''CREATE TABLE \"public\".\"users\" (\"id\" bigint);CREATE TABLE \"public\".\"users\" (\"name\" text);''))
     (py ''users'') = Some [py ''name text'']"
proof -
  have f: "finditer (table_pattern ascii_only)
      (py ''CREATE TABLE \"public\".\"users\" (\"id\" bigint);CREATE TABLE \"public\".\"users\" (\"name\" text);'') =
    [[py ''users'', py ''\"id\" bigint''], [py ''users'', py ''\"name\" text'']]"
    by (simp add: table_pattern_def is_word_def ascii_alnum_def)
  have c: "columns_of (py ''\"name\" text'') = [py ''name text'']"
    by (simp add: columns_of_def strip_def rstrip_chr_def quoted_pattern_def is_space_def)
  have m: "[py ''users'', py ''\"id\" bigint''] \<in> set (finditer (table_pattern ascii_only)
      (py ''CREATE TABLE \"public\".\"users\" (\"id\" bigint);CREATE TABLE \"public\".\"users\" (\"name\" text);''))"
    unfolding f by simp
  from C9_last_definition_wins [OF m] c show ?thesis
    unfolding f by simp
qed

subsection \<open>The matcher\<close>








text \<open>The pieces of a pattern on a text that starts with what they stand for.\<close>

lemma mt_Lit: "mt (Lit l # r) (l @ s) gs = mt r s gs"
  by simp



lemma lzy_shortest:
  assumes "\<And>u v. body = u @ v \<Longrightarrow> v \<noteq> [] \<Longrightarrow> mt r (v @ rest) (gs @ [acc @ u]) = None"
    "mt r rest (gs @ [acc @ body]) = Some m"
  shows "lzy r acc (body @ rest) gs = Some m"
  using assms
proof (induction body arbitrary: acc)
  case Nil
  then show ?case by (cases rest) auto
next
  case (Cons x body)
  have here: "mt r ((x # body) @ rest) (gs @ [acc @ []]) = None"
    by (rule Cons.prems(1)) auto
  have "lzy r (acc @ [x]) (body @ rest) gs = Some m"
  proof (rule Cons.IH)
    fix u v assume "body = u @ v" "v \<noteq> []"
    then show "mt r (v @ rest) (gs @ [(acc @ [x]) @ u]) = None"
      using Cons.prems(1) [of "x # u" v] by simp
  next
    show "mt r rest (gs @ [(acc @ [x]) @ body]) = Some m"
      using Cons.prems(2) by simp
  qed
  with here show ?case by simp
qed

subsection \<open>Texts that match nowhere or in part\<close>







subsection \<open>Foreign keys of several columns\<close>






end
